theory Spec2Isabelle
  imports Complex_Main "HOL-Library.Sublist"
begin

section \<open>JavaScript values\<close>

text \<open>
  The scorers of \<^verbatim>\<open>js/llm.ts\<close> handle untyped data at two places: the arguments of
  the model's function call come out of \<^verbatim>\<open>JSON.parse\<close> (type \<^verbatim>\<open>any\<close>), and the
  function schema sent to the provider is a JSON object. Both are values of
  \<open>js_value\<close>. An object is the list of its own properties in the order the
  engine enumerates them (insertion order for the keys used here); a number is a
  \<open>real\<close>, since the program only copies numbers and compares one of them with
  zero. \<open>JBuiltin\<close> stands for a built-in object or function that a property
  read can reach through \<^verbatim>\<open>Object.prototype\<close>; the string is its name.
  A string is a \<open>char list\<close>, one \<open>char\<close> for each code unit below 256.
\<close>

datatype js_value =
    JUndefined
  | JNull
  | JBool bool
  | JNumber real
  | JString string
  | JArray "js_value list"
  | JObject "(string \<times> js_value) list"
  | JBuiltin string

type_synonym js_object = "(string \<times> js_value) list"

text \<open>
  What the program throws: \<^verbatim>\<open>new Error(message)\<close> of the source, and the two
  errors the engine raises by itself, a \<^verbatim>\<open>TypeError\<close> (a property read on
  \<^verbatim>\<open>undefined\<close> or \<^verbatim>\<open>null\<close>, a call of something that is no function)
  and the \<^verbatim>\<open>SyntaxError\<close> of \<^verbatim>\<open>JSON.parse\<close>.
\<close>

datatype js_error = Error string | TypeError | SyntaxError

subsection \<open>Property reads on plain objects\<close>

text \<open>
  The properties every plain object inherits from \<^verbatim>\<open>Object.prototype\<close>. A read
  \<^verbatim>\<open>o[k]\<close> looks at the own properties of \<^verbatim>\<open>o\<close> first and then here; it
  is \<^verbatim>\<open>undefined\<close> only when both miss.
\<close>

definition Object_prototype :: js_object where
  "Object_prototype =
    [(''constructor'', JBuiltin ''Object''),
     (''__defineGetter__'', JBuiltin ''__defineGetter__''),
     (''__defineSetter__'', JBuiltin ''__defineSetter__''),
     (''hasOwnProperty'', JBuiltin ''hasOwnProperty''),
     (''__lookupGetter__'', JBuiltin ''__lookupGetter__''),
     (''__lookupSetter__'', JBuiltin ''__lookupSetter__''),
     (''isPrototypeOf'', JBuiltin ''isPrototypeOf''),
     (''propertyIsEnumerable'', JBuiltin ''propertyIsEnumerable''),
     (''toString'', JBuiltin ''toString''),
     (''valueOf'', JBuiltin ''valueOf''),
     (''__proto__'', JBuiltin ''Object.prototype''),
     (''toLocaleString'', JBuiltin ''toLocaleString'')]"

definition obj_get :: "js_object \<Rightarrow> string \<Rightarrow> js_value" where
  "obj_get props k =
    (case map_of props k of
       Some v \<Rightarrow> v
     | None \<Rightarrow> (case map_of Object_prototype k of Some b \<Rightarrow> b | None \<Rightarrow> JUndefined))"

text \<open>
  Writing a property, \<^verbatim>\<open>{...o, k: v}\<close> or \<^verbatim>\<open>o[k] = v\<close>: a key that is there
  keeps its place and takes the new value, a new key goes last.
\<close>

fun obj_set :: "string \<Rightarrow> 'v \<Rightarrow> (string \<times> 'v) list \<Rightarrow> (string \<times> 'v) list" where
  "obj_set k v [] = [(k, v)]"
| "obj_set k v ((k', v') # ps) =
    (if k' = k then (k, v) # ps else (k', v') # obj_set k v ps)"

text \<open>The spread \<^verbatim>\<open>{...a, ...b}\<close>: the properties of \<open>b\<close> written into \<open>a\<close> in turn.\<close>

definition obj_spread :: "(string \<times> 'v) list \<Rightarrow> (string \<times> 'v) list \<Rightarrow> (string \<times> 'v) list" where
  "obj_spread a b = foldl (\<lambda>acc (k, v). obj_set k v acc) a b"

text \<open>
  \<^verbatim>\<open>choiceScores[choice]\<close> on a \<^verbatim>\<open>Record<string, number>\<close>: the own entry as a
  number, else whatever \<^verbatim>\<open>Object.prototype\<close> has under that name.
\<close>

definition record_get :: "(string \<times> real) list \<Rightarrow> string \<Rightarrow> js_value" where
  "record_get r k = obj_get (map (\<lambda>(l, s). (l, JNumber s)) r) k"

subsection \<open>Strings\<close>

text \<open>
  \<^verbatim>\<open>String.prototype.trim\<close> removes white space and line terminators at both
  ends. Below code unit 256 these are TAB, LF, VT, FF, CR, SP and NBSP.
\<close>

definition is_js_space :: "char \<Rightarrow> bool" where
  "is_js_space c =
    (c = CHR 0x09 \<or> c = CHR 0x0A \<or> c = CHR 0x0B \<or> c = CHR 0x0C \<or> c = CHR 0x0D
      \<or> c = CHR 0x20 \<or> c = CHR 0xA0)"

definition trim :: "string \<Rightarrow> string" where
  "trim s = rev (dropWhile is_js_space (rev (dropWhile is_js_space s)))"

fun join_strings :: "string \<Rightarrow> string list \<Rightarrow> string" where
  "join_strings sep [] = []"
| "join_strings sep [s] = s"
| "join_strings sep (s # t # ss) = s @ sep @ join_strings sep (t # ss)"

text \<open>
  \<^verbatim>\<open>ToString\<close> on the values \<^verbatim>\<open>JSON.parse\<close> can produce, with the printing of
  a number left to the engine (\<open>num\<close>). An array prints as its elements joined by
  commas; \<^verbatim>\<open>Array.prototype.join\<close> prints \<^verbatim>\<open>undefined\<close> and \<^verbatim>\<open>null\<close>
  elements as the empty string.
\<close>

fun ToString :: "(real \<Rightarrow> string) \<Rightarrow> js_value \<Rightarrow> string" where
  "ToString num JUndefined = ''undefined''"
| "ToString num JNull = ''null''"
| "ToString num (JBool b) = (if b then ''true'' else ''false'')"
| "ToString num (JNumber n) = num n"
| "ToString num (JString s) = s"
| "ToString num (JArray xs) =
    join_strings '',''
      (map (\<lambda>x. if x = JUndefined \<or> x = JNull then [] else ToString num x) xs)"
| "ToString num (JObject ps) = ''[object Object]''"
| "ToString num (JBuiltin n) = ''function '' @ n @ ''() { [native code] }''"

definition Array_join :: "(real \<Rightarrow> string) \<Rightarrow> string \<Rightarrow> js_value list \<Rightarrow> string" where
  "Array_join num sep xs =
    join_strings sep
      (map (\<lambda>x. if x = JUndefined \<or> x = JNull then [] else ToString num x) xs)"

section \<open>The data of a classification\<close>

text \<open>
  The function schema, as \<^verbatim>\<open>PLAIN_RESPONSE_SCHEMA\<close> and \<^verbatim>\<open>COT_RESPONSE_SCHEMA\<close>
  have it: \<open>properties\<close> maps a field name to its descriptor, in the order the
  fields are written.
\<close>

record response_schema =
  properties :: "(string \<times> js_object) list"
  required :: "string list"
  title :: string
  type :: string

record chat_function =
  fn_name :: string
  fn_description :: string
  fn_parameters :: response_schema

record ChatCompletionMessageParam =
  role :: string
  content :: "string option"

text \<open>
  The request handed to \<^verbatim>\<open>cachedChatCompletion\<close>, lines 139 to 145:
  \<^verbatim>\<open>{model, messages, functions, function_call: {name}, temperature, max_tokens}\<close>.
\<close>

record CachedLLMParams =
  p_model :: string
  p_messages :: "ChatCompletionMessageParam list"
  p_functions :: "chat_function list"
  p_function_call :: string
  p_temperature :: real
  p_max_tokens :: "real option"

record OpenAIAuth =
  openAiApiKey :: "string option"
  openAiOrganizationId :: "string option"
  openAiBaseUrl :: "string option"
  openAiDefaultHeaders :: "(string \<times> string) list option"
  openAiDangerouslyAllowBrowser :: "bool option"

datatype ChatCache = ChatCache

record completion_options =
  o_cache :: "ChatCache option"
  o_auth :: OpenAIAuth

text \<open>The provider's reply: \<^verbatim>\<open>{choices: [{message: {function_call: {arguments}}}]}\<close>.\<close>

record FunctionCall =
  fc_name :: string
  arguments :: string

record ChatCompletionMessage =
  msg_content :: "string option"
  function_call :: "FunctionCall option"

record ChatCompletionChoice =
  message :: "ChatCompletionMessage option"

record ChatCompletion =
  choices :: "ChatCompletionChoice list"

text \<open>
  \<^verbatim>\<open>Score\<close>. The score is a \<open>js_value\<close> because \<^verbatim>\<open>parseResponse\<close> returns
  whatever the read \<^verbatim>\<open>choiceScores[choice]\<close> gave it.
\<close>

record ParsedScore =
  score :: js_value
  metadata :: js_object

record Score = ParsedScore +
  score_name :: string

text \<open>
  \<^verbatim>\<open>OpenAIClassifierArgs\<close>. An optional argument is an \<open>option\<close>: \<open>None\<close> is
  a key the caller did not write. The five \<^verbatim>\<open>openAi...\<close> keys travel together
  as \<open>auth\<close>; \<open>remainingRenderArgs\<close> holds every other key, the ones of
  \<^verbatim>\<open>RenderArgs\<close>.
\<close>

record OpenAIClassifierArgs =
  name :: string
  output_text :: js_value
  expected :: js_value
  auth :: OpenAIAuth
  messages :: "ChatCompletionMessageParam list"
  model :: string
  choiceScores :: "(string \<times> real) list"
  classificationFunctions :: "chat_function list"
  maxTokens :: "real option"
  temperature :: "real option"
  cache :: "ChatCache option"
  remainingRenderArgs :: js_object

text \<open>
  What the program takes from outside: \<^verbatim>\<open>JSON.parse\<close> (\<open>None\<close> is its
  \<^verbatim>\<open>SyntaxError\<close>), the engine's printing of numbers, \<^verbatim>\<open>mustache.render\<close>
  (which throws on a template it cannot parse), \<^verbatim>\<open>cachedChatCompletion\<close> of
  \<^verbatim>\<open>./oai\<close>, acting on a world \<open>'w\<close> of cache and network, and the templates
  of \<^verbatim>\<open>./templates\<close> read by \<^verbatim>\<open>yaml.load\<close>.
\<close>

record ModelGradedSpec =
  prompt :: string
  choice_scores :: "(string \<times> real) list"
  s_model :: "string option"
  use_cot :: "bool option"
  s_temperature :: "real option"

record 'w env =
  JSON_parse :: "string \<Rightarrow> js_value option"
  Number_toString :: "real \<Rightarrow> string"
  mustache_render :: "string \<Rightarrow> js_object \<Rightarrow> js_error + string"
  cachedChatCompletion ::
    "CachedLLMParams \<Rightarrow> completion_options \<Rightarrow> 'w \<Rightarrow> (js_error + ChatCompletion) \<times> 'w"
  yaml_load_template :: "string \<Rightarrow> ModelGradedSpec"

section \<open>The schema builder\<close>

definition NO_COT_SUFFIX :: string where
  "NO_COT_SUFFIX =
    ''Answer the question by calling `select_choice` with a single choice from {{__choices}}.''"

definition COT_SUFFIX :: string where
  "COT_SUFFIX =
    ''Answer the question by calling `select_choice` with your reasoning in a step-by-step manner to be sure that your conclusion is correct. Avoid simply stating the correct answer at the outset. Select a single choice by setting the `choice` parameter to a single choice from {{__choices}}.''"

definition SUPPORTED_MODELS :: "string list" where
  "SUPPORTED_MODELS = [''gpt-3.5-turbo'', ''gpt-4'']"

definition PLAIN_RESPONSE_SCHEMA :: response_schema where
  "PLAIN_RESPONSE_SCHEMA =
    \<lparr>properties =
       [(''choice'',
         [(''description'', JString ''The choice''), (''title'', JString ''Choice''),
          (''type'', JString ''string'')])],
     required = [''choice''],
     title = ''FunctionResponse'',
     type = ''object''\<rparr>"

definition COT_RESPONSE_SCHEMA :: response_schema where
  "COT_RESPONSE_SCHEMA =
    \<lparr>properties =
       [(''reasons'',
         [(''description'', JString ''Write out in a step by step manner your reasoning to be sure that your conclusion is correct. Avoid simply stating the correct answer at the outset.''),
          (''items'', JObject [(''type'', JString ''string'')]),
          (''title'', JString ''Reasons''),
          (''type'', JString ''array'')]),
        (''choice'',
         [(''description'', JString ''The choice''), (''title'', JString ''Choice''),
          (''type'', JString ''string'')])],
     required = [''reasons'', ''choice''],
     title = ''CoTResponse'',
     type = ''object''\<rparr>"

text \<open>
  \<^verbatim>\<open>params.properties.choice\<close> is read and spread; spreading \<^verbatim>\<open>undefined\<close>
  would give no property, which is the \<open>None\<close> case.
\<close>

definition buildClassificationFunctions :: "bool \<Rightarrow> string list \<Rightarrow> chat_function list" where
  "buildClassificationFunctions useCoT choiceStrings =
    (let params = (if useCoT then COT_RESPONSE_SCHEMA else PLAIN_RESPONSE_SCHEMA);
         choice = (case map_of (properties params) ''choice'' of None \<Rightarrow> [] | Some d \<Rightarrow> d);
         enumParams = params
           \<lparr>properties :=
              obj_set ''choice''
                (obj_set ''enum'' (JArray (map JString choiceStrings)) choice)
                (properties params)\<rparr>
     in [\<lparr>fn_name = ''select_choice'',
          fn_description = ''Call this function to select a choice.'',
          fn_parameters = enumParams\<rparr>])"

section \<open>The response parser\<close>

text \<open>
  \<^verbatim>\<open>args["reasons"]\<close> and \<^verbatim>\<open>args["choice"]\<close>, where \<^verbatim>\<open>args\<close> is what
  \<^verbatim>\<open>JSON.parse\<close> returned. Reading a property of \<^verbatim>\<open>null\<close> throws; an object
  answers from its properties; an array, a string, a number or a boolean has
  neither of the two names this program reads, so the read is \<^verbatim>\<open>undefined\<close>.
\<close>

definition args_get :: "js_value \<Rightarrow> string \<Rightarrow> js_error + js_value" where
  "args_get args k =
    (case args of
       JUndefined \<Rightarrow> Inl TypeError
     | JNull \<Rightarrow> Inl TypeError
     | JObject props \<Rightarrow> Inr (obj_get props k)
     | _ \<Rightarrow> Inr JUndefined)"

text \<open>
  \<^verbatim>\<open>v?.join("\n")\<close>: \<^verbatim>\<open>undefined\<close> when \<open>v\<close> is \<^verbatim>\<open>undefined\<close> or
  \<^verbatim>\<open>null\<close>, the joined elements when \<open>v\<close> is an array, and a
  \<^verbatim>\<open>TypeError\<close> otherwise, since no other value has a function \<^verbatim>\<open>join\<close>.
\<close>

definition optional_join :: "(real \<Rightarrow> string) \<Rightarrow> js_value \<Rightarrow> js_error + js_value" where
  "optional_join num v =
    (case v of
       JUndefined \<Rightarrow> Inr JUndefined
     | JNull \<Rightarrow> Inr JUndefined
     | JArray xs \<Rightarrow> Inr (JString (Array_join num [CHR 0x0A] xs))
     | _ \<Rightarrow> Inl TypeError)"

text \<open>\<^verbatim>\<open>v.trim()\<close>: only a string has the function.\<close>

definition call_trim :: "js_value \<Rightarrow> js_error + string" where
  "call_trim v = (case v of JString s \<Rightarrow> Inr (trim s) | _ \<Rightarrow> Inl TypeError)"

definition parseResponse ::
  "'w env \<Rightarrow> ChatCompletionMessage \<Rightarrow> (string \<times> real) list \<Rightarrow> js_error + ParsedScore" where
  "parseResponse e resp choiceScores' =
    (case function_call resp of
       None \<Rightarrow> Inl TypeError
     | Some fc \<Rightarrow>
    (case JSON_parse e (arguments fc) of
       None \<Rightarrow> Inl SyntaxError
     | Some args \<Rightarrow>
    (case args_get args ''reasons'' of
       Inl err \<Rightarrow> Inl err
     | Inr reasons \<Rightarrow>
    (case optional_join (Number_toString e) reasons of
       Inl err \<Rightarrow> Inl err
     | Inr rationale \<Rightarrow>
    (case args_get args ''choice'' of
       Inl err \<Rightarrow> Inl err
     | Inr c \<Rightarrow>
    (case call_trim c of
       Inl err \<Rightarrow> Inl err
     | Inr choice \<Rightarrow>
       (let metadata' = obj_set ''choice'' (JString choice) (obj_set ''rationale'' rationale [])
        in if record_get choiceScores' choice \<noteq> JUndefined
           then Inr \<lparr>score = record_get choiceScores' choice, metadata = metadata'\<rparr>
           else Inl (Error (''Unknown score choice '' @ choice)))))))))"

section \<open>The classifier\<close>

text \<open>The loop of lines 109 to 115 over \<^verbatim>\<open>SUPPORTED_MODELS\<close>, with its \<^verbatim>\<open>break\<close>.\<close>

fun found_supported :: "string \<Rightarrow> string list \<Rightarrow> bool" where
  "found_supported model' [] = False"
| "found_supported model' (m # ms) =
    (if prefix m model' then True else found_supported model' ms)"

text \<open>
  Lines 133 to 136: every message keeps its fields and has its content rendered,
  or replaced by the empty string when it is \<^verbatim>\<open>null\<close> or empty.
\<close>

fun render_messages ::
  "(string \<Rightarrow> js_object \<Rightarrow> js_error + string) \<Rightarrow> js_object \<Rightarrow>
    ChatCompletionMessageParam list \<Rightarrow> js_error + ChatCompletionMessageParam list" where
  "render_messages render renderArgs [] = Inr []"
| "render_messages render renderArgs (m # ms) =
    (case (case content m of
             None \<Rightarrow> Inr []
           | Some c \<Rightarrow> if c = [] then Inr [] else render c renderArgs) of
       Inl err \<Rightarrow> Inl err
     | Inr c' \<Rightarrow>
         (case render_messages render renderArgs ms of
            Inl err \<Rightarrow> Inl err
          | Inr ms' \<Rightarrow> Inr (m\<lparr>content := Some c'\<rparr> # ms')))"

text \<open>
  Lines 122 to 145: the request. \<^verbatim>\<open>temperature || 0\<close> is \<open>0\<close> for a missing
  temperature and for \<open>0\<close>.
\<close>

definition chat_request :: "'w env \<Rightarrow> OpenAIClassifierArgs \<Rightarrow> js_error + CachedLLMParams" where
  "chat_request e args =
    (let renderArgs =
           obj_spread [(''output'', output_text args), (''expected'', expected args)]
             (remainingRenderArgs args)
     in case render_messages (mustache_render e) renderArgs (messages args) of
          Inl err \<Rightarrow> Inl err
        | Inr ms \<Rightarrow>
            Inr \<lparr>p_model = model args,
                 p_messages = ms,
                 p_functions = classificationFunctions args,
                 p_function_call = ''select_choice'',
                 p_temperature =
                   (case temperature args of None \<Rightarrow> 0 | Some t \<Rightarrow> if t = 0 then 0 else t),
                 p_max_tokens = maxTokens args\<rparr>)"

definition OpenAIClassifier ::
  "'w env \<Rightarrow> OpenAIClassifierArgs \<Rightarrow> 'w \<Rightarrow> (js_error + Score) \<times> 'w" where
  "OpenAIClassifier e args w =
    (if \<not> found_supported (model args) SUPPORTED_MODELS
     then (Inl (Error (''Unsupported model: '' @ model args
                  @ ''. Currently only supports OpenAI chat models.'')), w)
     else
       (case chat_request e args of
          Inl err \<Rightarrow> (Inl err, w)
        | Inr params \<Rightarrow>
            (case cachedChatCompletion e params \<lparr>o_cache = cache args, o_auth = auth args\<rparr> w of
               (Inl err, w') \<Rightarrow> (Inl err, w')
             | (Inr resp, w') \<Rightarrow>
                 (case choices resp of
                    [] \<Rightarrow> (Inl (Error ''Empty response from OpenAI''), w')
                  | c # cs \<Rightarrow>
                      (case message c of
                         None \<Rightarrow> (Inl TypeError, w')
                       | Some m \<Rightarrow>
                           (case parseResponse e m (choiceScores args) of
                              Inl err \<Rightarrow> (Inl err, w')
                            | Inr parsed \<Rightarrow>
                                (Inr \<lparr>score = score parsed, metadata = metadata parsed,
                                      score_name = name args\<rparr>, w')))))))"

section \<open>Classifiers from templates\<close>

text \<open>
  The argument of \<^verbatim>\<open>LLMClassifierFromTemplate\<close> and the \<^verbatim>\<open>runtimeArgs\<close> of the
  scorer it returns. \<open>r_renderArgs\<close> holds the caller's other keys, the template
  variables of \<^verbatim>\<open>RenderArgs\<close>; the type \<^verbatim>\<open>OpenAIClassifierArgs<RenderArgs>\<close>
  intersects them with the classifier's own arguments, so they are keys other than
  \<^verbatim>\<open>name\<close>, \<^verbatim>\<open>messages\<close>, \<^verbatim>\<open>choiceScores\<close> and
  \<^verbatim>\<open>classificationFunctions\<close>.
\<close>

record template_args =
  t_name :: string
  promptTemplate :: string
  t_choiceScores :: "(string \<times> real) list"
  t_model :: "string option"
  t_useCoT :: "bool option"
  t_temperature :: "real option"

record runtime_args =
  r_output :: js_value
  r_expected :: js_value
  r_model :: "string option"
  r_useCoT :: "bool option"
  r_maxTokens :: "real option"
  r_temperature :: "real option"
  r_auth :: OpenAIAuth
  r_cache :: "ChatCache option"
  r_renderArgs :: js_object

text \<open>Line 212: \<^verbatim>\<open>runtimeArgs.useCoT ?? useCoTArg ?? true\<close>.\<close>

definition resolve_useCoT :: "template_args \<Rightarrow> runtime_args \<Rightarrow> bool" where
  "resolve_useCoT t r =
    (case r_useCoT r of
       Some b \<Rightarrow> b
     | None \<Rightarrow> (case t_useCoT t of Some b \<Rightarrow> b | None \<Rightarrow> True))"

text \<open>
  Lines 208 to 242: the object passed to \<^verbatim>\<open>OpenAIClassifier\<close>. The keys written
  before \<^verbatim>\<open>...runtimeArgs\<close> are defaults that a key of \<^verbatim>\<open>runtimeArgs\<close> replaces;
  \<^verbatim>\<open>useCoT\<close> is written after it. \<^verbatim>\<open>model = "gpt-3.5-turbo"\<close> is the default of
  the parameter, taken when the template gives no model.
\<close>

definition classifier_args :: "template_args \<Rightarrow> runtime_args \<Rightarrow> OpenAIClassifierArgs" where
  "classifier_args t r =
    (let choiceStrings = map fst (t_choiceScores t);
         model' = (case t_model t of None \<Rightarrow> ''gpt-3.5-turbo'' | Some m \<Rightarrow> m);
         useCoT = resolve_useCoT t r;
         prompt' = promptTemplate t @ [CHR 0x0A] @ (if useCoT then COT_SUFFIX else NO_COT_SUFFIX);
         maxTokens' = (512 :: real)
     in \<lparr>name = t_name t,
         output_text = r_output r,
         expected = r_expected r,
         auth = r_auth r,
         messages = [\<lparr>role = ''user'', content = Some prompt'\<rparr>],
         model = (case r_model r of Some m \<Rightarrow> m | None \<Rightarrow> model'),
         choiceScores = t_choiceScores t,
         classificationFunctions = buildClassificationFunctions useCoT choiceStrings,
         maxTokens = (case r_maxTokens r of Some n \<Rightarrow> Some n | None \<Rightarrow> Some maxTokens'),
         temperature = (case r_temperature r of Some x \<Rightarrow> Some x | None \<Rightarrow> t_temperature t),
         cache = r_cache r,
         remainingRenderArgs =
           obj_set ''useCoT'' (JBool useCoT)
             (obj_spread [(''__choices'', JArray (map JString choiceStrings))]
                (r_renderArgs r))\<rparr>)"


text \<open>Lines 264 to 271: the template a \<^verbatim>\<open>ModelGradedSpec\<close> stands for.\<close>

definition spec_template :: "string \<Rightarrow> ModelGradedSpec \<Rightarrow> template_args" where
  "spec_template n spec =
    \<lparr>t_name = n,
     promptTemplate = prompt spec,
     t_choiceScores = choice_scores spec,
     t_model = s_model spec,
     t_useCoT = use_cot spec,
     t_temperature = s_temperature spec\<rparr>"



section \<open>The cached completion\<close>

text \<open>
  The world of cache and network: what the cache holds under each request, and how
  many calls the provider has received. The provider's reply may differ from one
  call to the next, so it takes the number of the call.
\<close>

record world =
  cache_store :: "CachedLLMParams \<Rightarrow> ChatCompletion option"
  network_calls :: nat

text \<open>
  Modelled from the spec: \<^verbatim>\<open>cachedChatCompletion\<close> of \<^verbatim>\<open>./oai\<close>, which is not among
  the sources. The key is the full request. On a hit the stored response is returned
  and no network call is made; on a miss exactly one network call is made, its
  response is stored under the key and returned. The spec guarantees this "assuming
  cache availability", and the cache handle is optional: without a handle there is
  nothing to look up or to store, and the call goes to the network.
\<close>

definition cachedChatCompletion_spec ::
  "(nat \<Rightarrow> CachedLLMParams \<Rightarrow> ChatCompletion) \<Rightarrow>
    CachedLLMParams \<Rightarrow> completion_options \<Rightarrow> world \<Rightarrow> (js_error + ChatCompletion) \<times> world" where
  "cachedChatCompletion_spec provider params options w =
    (case o_cache options of
       None \<Rightarrow>
         (Inr (provider (network_calls w) params),
          w\<lparr>network_calls := Suc (network_calls w)\<rparr>)
     | Some h \<Rightarrow>
         (case cache_store w params of
            Some stored \<Rightarrow> (Inr stored, w)
          | None \<Rightarrow>
              (let resp = provider (network_calls w) params
               in (Inr resp,
                   w\<lparr>cache_store := (cache_store w)(params \<mapsto> resp),
                     network_calls := Suc (network_calls w)\<rparr>))))"

section \<open>Sample data\<close>

text \<open>
  The scenario of the humor classifier: the spec
  \<^verbatim>\<open>{prompt: "Is '{{output}}' funny?", choice_scores: {"Yes": 1, "No": 0}}\<close>, the
  output \<^verbatim>\<open>a pun\<close>, and a provider that answers with a fixed function call.
  \<open>sample_JSON_parse\<close> gives what \<^verbatim>\<open>JSON.parse\<close> returns on the four texts the
  examples use; \<open>sample_env\<close> renders a template as it stands and prints no number.
  \<open>fixed_completion\<close> is a completion that has no cache and no state at all.
\<close>

definition sample_JSON_parse :: "string \<Rightarrow> js_value option" where
  \<open>sample_JSON_parse s =
    map_of
      [(''{"choice": " Yes "}'', JObject [(''choice'', JString '' Yes '')]),
       (''{"reasons": ["it's a pun", "puns are funny"], "choice": "Yes"}'',
        JObject [(''reasons'', JArray [JString ''it's a pun'', JString ''puns are funny'']),
                 (''choice'', JString ''Yes'')]),
       (''{"reasons": "it's a pun", "choice": "Yes"}'',
        JObject [(''reasons'', JString ''it's a pun''), (''choice'', JString ''Yes'')]),
       (''{"choice": "constructor"}'', JObject [(''choice'', JString ''constructor'')])] s\<close>

definition humor_spec :: ModelGradedSpec where
  "humor_spec =
    \<lparr>prompt = ''Is '{{output}}' funny?'',
     choice_scores = [(''Yes'', 1), (''No'', 0)],
     s_model = None, use_cot = None, s_temperature = None\<rparr>"

definition sample_env ::
  "(CachedLLMParams \<Rightarrow> completion_options \<Rightarrow> 'w \<Rightarrow> (js_error + ChatCompletion) \<times> 'w) \<Rightarrow> 'w env" where
  "sample_env ccc =
    \<lparr>JSON_parse = sample_JSON_parse,
     Number_toString = (\<lambda>n. ''NaN''),
     mustache_render = (\<lambda>template view. Inr template),
     cachedChatCompletion = ccc,
     yaml_load_template = (\<lambda>templateName. humor_spec)\<rparr>"

definition reply :: "string \<Rightarrow> ChatCompletionMessage" where
  "reply a = \<lparr>msg_content = None, function_call = Some \<lparr>fc_name = ''select_choice'', arguments = a\<rparr>\<rparr>"

definition fixed_completion ::
  "ChatCompletion \<Rightarrow> CachedLLMParams \<Rightarrow> completion_options \<Rightarrow> unit \<Rightarrow> (js_error + ChatCompletion) \<times> unit" where
  "fixed_completion resp params options w = (Inr resp, w)"

definition no_auth :: OpenAIAuth where
  "no_auth = \<lparr>openAiApiKey = None, openAiOrganizationId = None, openAiBaseUrl = None,
     openAiDefaultHeaders = None, openAiDangerouslyAllowBrowser = None\<rparr>"

definition humor_runtime :: runtime_args where
  "humor_runtime =
    \<lparr>r_output = JString ''a pun'', r_expected = JUndefined, r_model = None,
     r_useCoT = Some False, r_maxTokens = None, r_temperature = None, r_auth = no_auth,
     r_cache = Some ChatCache, r_renderArgs = []\<rparr>"

definition humor_template :: template_args where
  "humor_template = spec_template ''Humor'' humor_spec"

definition sample_provider :: "string \<Rightarrow> nat \<Rightarrow> CachedLLMParams \<Rightarrow> ChatCompletion" where
  "sample_provider a n params = \<lparr>choices = [\<lparr>message = Some (reply a)\<rparr>]\<rparr>"

definition empty_world :: world where
  "empty_world = \<lparr>cache_store = (\<lambda>params. None), network_calls = 0\<rparr>"

text \<open>
  The values of \<^verbatim>\<open>reasons\<close> on which \<^verbatim>\<open>?.join\<close> does not throw: a missing
  entry, \<^verbatim>\<open>null\<close> and an array.
\<close>

definition joinable :: "js_value \<Rightarrow> bool" where
  "joinable v = (case v of JUndefined \<Rightarrow> True | JNull \<Rightarrow> True | JArray xs \<Rightarrow> True | _ \<Rightarrow> False)"

section \<open>Basic facts\<close>


lemma map_of_obj_set_other: "k' \<noteq> k \<Longrightarrow> map_of (obj_set k v ps) k' = map_of ps k'"
  by (induction ps) auto

lemma found_supported_models:
  "found_supported m SUPPORTED_MODELS \<longleftrightarrow> prefix ''gpt-3.5-turbo'' m \<or> prefix ''gpt-4'' m"
  by (simp add: SUPPORTED_MODELS_def)


lemma record_get_none:
  "map_of cs k = None \<Longrightarrow> map_of Object_prototype k = None \<Longrightarrow> record_get cs k = JUndefined"
  by (induction cs) (auto simp: record_get_def obj_get_def)

lemma Array_join_strings: "Array_join num sep (map JString rs) = join_strings sep rs"
  by (simp add: Array_join_def comp_def)


lemma optional_join_joinable:
  "joinable v \<Longrightarrow> \<exists>r. optional_join num v = Inr r"
  by (cases v) (auto simp: joinable_def optional_join_def)


section \<open>The response parser: known and unknown choices\<close>




text \<open>
  Claim C2. A reply whose trimmed choice is no key of the choice-score map should raise
  the unknown-choice error and give no score. The test of line 176,
  \<^verbatim>\<open>choiceScores[choice] !== undefined\<close>, also finds what the map inherits from
  \<^verbatim>\<open>Object.prototype\<close>: for the choice \<^verbatim>\<open>constructor\<close> and the map
  \<^verbatim>\<open>{"Yes": 1, "No": 0}\<close> the parser returns, and the score is the function
  \<^verbatim>\<open>Object\<close>.
\<close>

theorem parseResponse_inherited_choice:
  \<open>map_of [(''Yes'', 1 :: real), (''No'', 0)] ''constructor'' = None
   \<and> parseResponse (sample_env (fixed_completion \<lparr>choices = []\<rparr>))
        (reply ''{"choice": "constructor"}'') [(''Yes'', 1), (''No'', 0)] =
      Inr \<lparr>score = JBuiltin ''Object'',
           metadata = [(''rationale'', JUndefined), (''choice'', JString ''constructor'')]\<rparr>\<close>
  by (simp add: reply_def sample_env_def sample_JSON_parse_def parseResponse_def args_get_def
        obj_get_def optional_join_def call_trim_def record_get_def Object_prototype_def
        trim_def is_js_space_def)

text \<open>
  For a choice that is neither a key of the map nor a name of \<^verbatim>\<open>Object.prototype\<close>
  the parser does raise the error of line 179.
\<close>

lemma parseResponse_unknown_choice:
  assumes "function_call resp = Some fc"
    and "JSON_parse e (arguments fc) = Some (JObject props)"
    and "joinable (obj_get props ''reasons'')"
    and "map_of props ''choice'' = Some (JString c)"
    and "map_of cs (trim c) = None"
    and "map_of Object_prototype (trim c) = None"
  shows "parseResponse e resp cs = Inl (Error (''Unknown score choice '' @ trim c))"
proof -
  obtain rat where rat: "optional_join (Number_toString e) (obj_get props ''reasons'') = Inr rat"
    using optional_join_joinable [OF assms(3)] by blast
  have ch: "obj_get props ''choice'' = JString c"
    using assms(4) by (simp add: obj_get_def)
  have sc: "record_get cs (trim c) = JUndefined"
    using assms(5,6) by (rule record_get_none)
  show ?thesis
    using assms(1,2) rat ch sc
    by (simp add: parseResponse_def args_get_def call_trim_def)
qed

section \<open>The response parser: the rationale\<close>

text \<open>
  Claim C7. Whenever \<^verbatim>\<open>parseResponse\<close> returns for a reply whose arguments are an
  object: if \<^verbatim>\<open>reasons\<close> is an array of strings, \<^verbatim>\<open>metadata.rationale\<close> is its
  elements joined by newlines; if the object has no \<^verbatim>\<open>reasons\<close>, reading
  \<^verbatim>\<open>metadata.rationale\<close> gives \<^verbatim>\<open>undefined\<close> (line 173 writes the key with that
  value).
\<close>

theorem parseResponse_rationale:
  assumes "function_call resp = Some fc"
    and "JSON_parse e (arguments fc) = Some (JObject props)"
    and "parseResponse e resp cs = Inr r"
  shows "(map_of props ''reasons'' = Some (JArray (map JString rs)) \<longrightarrow>
            obj_get (metadata r) ''rationale'' = JString (join_strings [CHR 0x0A] rs))
       \<and> (map_of props ''reasons'' = None \<longrightarrow> obj_get (metadata r) ''rationale'' = JUndefined)"
proof (intro conjI impI)
  assume "map_of props ''reasons'' = Some (JArray (map JString rs))"
  then have "obj_get props ''reasons'' = JArray (map JString rs)"
    by (simp add: obj_get_def)
  with assms show "obj_get (metadata r) ''rationale'' = JString (join_strings [CHR 0x0A] rs)"
    by (auto simp: parseResponse_def args_get_def optional_join_def Array_join_strings
          obj_get_def Let_def split: sum.splits if_splits)
next
  assume "map_of props ''reasons'' = None"
  then have "obj_get props ''reasons'' = JUndefined"
    by (simp add: obj_get_def Object_prototype_def)
  with assms show "obj_get (metadata r) ''rationale'' = JUndefined"
    by (auto simp: parseResponse_def args_get_def optional_join_def
          obj_get_def Let_def split: sum.splits if_splits)
qed

text \<open>
  The chain-of-thought scenario, \<^verbatim>\<open>{reasons: ["it's a pun", "puns are funny"], choice: "Yes"}\<close>,
  and the reply without reasons.
\<close>

theorem parseResponse_rationale_witness:
  \<open>obj_get
      (metadata (projr (parseResponse (sample_env (fixed_completion \<lparr>choices = []\<rparr>))
         (reply ''{"reasons": ["it's a pun", "puns are funny"], "choice": "Yes"}'')
         [(''Yes'', 1), (''No'', 0)]))) ''rationale'' =
     JString (''it's a pun'' @ [CHR 0x0A] @ ''puns are funny'')
   \<and> obj_get
      (metadata (projr (parseResponse (sample_env (fixed_completion \<lparr>choices = []\<rparr>))
         (reply ''{"choice": " Yes "}'') [(''Yes'', 1), (''No'', 0)]))) ''rationale'' =
     JUndefined\<close>
proof -
  let ?e = "sample_env (fixed_completion \<lparr>choices = []\<rparr>)"
  let ?cs = "[(''Yes'', 1 :: real), (''No'', 0)]"
  have a: \<open>parseResponse ?e
      (reply ''{"reasons": ["it's a pun", "puns are funny"], "choice": "Yes"}'') ?cs =
     Inr \<lparr>score = JNumber 1,
          metadata = [(''rationale'', JString (''it's a pun'' @ [CHR 0x0A] @ ''puns are funny'')),
                      (''choice'', JString ''Yes'')]\<rparr>\<close>
    by (simp add: sample_env_def sample_JSON_parse_def reply_def parseResponse_def args_get_def
          optional_join_def call_trim_def record_get_def obj_get_def Object_prototype_def
          trim_def is_js_space_def Array_join_def)
  have b: \<open>parseResponse ?e (reply ''{"choice": " Yes "}'') ?cs =
     Inr \<lparr>score = JNumber 1,
          metadata = [(''rationale'', JUndefined), (''choice'', JString ''Yes'')]\<rparr>\<close>
    by (simp add: sample_env_def sample_JSON_parse_def reply_def parseResponse_def args_get_def
          optional_join_def call_trim_def record_get_def obj_get_def Object_prototype_def
          trim_def is_js_space_def Array_join_def)
  have fa: \<open>function_call
        (reply ''{"reasons": ["it's a pun", "puns are funny"], "choice": "Yes"}'') =
      Some \<lparr>fc_name = ''select_choice'',
        arguments = ''{"reasons": ["it's a pun", "puns are funny"], "choice": "Yes"}''\<rparr>\<close>
    and fb: \<open>function_call (reply ''{"choice": " Yes "}'') =
      Some \<lparr>fc_name = ''select_choice'', arguments = ''{"choice": " Yes "}''\<rparr>\<close>
    by (simp_all add: reply_def)
  have pa: \<open>JSON_parse ?e
        (arguments \<lparr>fc_name = ''select_choice'',
           arguments = ''{"reasons": ["it's a pun", "puns are funny"], "choice": "Yes"}''\<rparr>) =
      Some (JObject [(''reasons'', JArray (map JString [''it's a pun'', ''puns are funny''])),
                     (''choice'', JString ''Yes'')])\<close>
    and pb: \<open>JSON_parse ?e
        (arguments \<lparr>fc_name = ''select_choice'', arguments = ''{"choice": " Yes "}''\<rparr>) =
      Some (JObject [(''choice'', JString '' Yes '')])\<close>
    by (simp_all add: sample_env_def sample_JSON_parse_def)
  show ?thesis
    using parseResponse_rationale [OF fa pa a, of "[''it's a pun'', ''puns are funny'']"]
      parseResponse_rationale [OF fb pb b, of "[]"]
    by (simp add: a b)
qed

section \<open>The schema builder\<close>

text \<open>
  Claim C3. For every \<open>useCoT\<close> and every list of labels,
  \<^verbatim>\<open>buildClassificationFunctions\<close> returns one function, named \<^verbatim>\<open>select_choice\<close>,
  whose \<^verbatim>\<open>choice\<close> property has as \<^verbatim>\<open>enum\<close> the labels in the given order.
  Without chain of thought the schema has the one property \<^verbatim>\<open>choice\<close> and requires
  it; with chain of thought it has \<^verbatim>\<open>reasons\<close>, an array of strings, before
  \<^verbatim>\<open>choice\<close>, and requires both.
\<close>

theorem buildClassificationFunctions_schema:
  "(case buildClassificationFunctions useCoT cs of
      [f] \<Rightarrow>
        fn_name f = ''select_choice''
        \<and> map fst (properties (fn_parameters f)) =
            (if useCoT then [''reasons'', ''choice''] else [''choice''])
        \<and> required (fn_parameters f) =
            (if useCoT then [''reasons'', ''choice''] else [''choice''])
        \<and> (case map_of (properties (fn_parameters f)) ''choice'' of
              Some d \<Rightarrow> map_of d ''enum'' = Some (JArray (map JString cs))
            | None \<Rightarrow> False)
        \<and> (case map_of (properties (fn_parameters f)) ''reasons'' of
              Some d \<Rightarrow>
                useCoT \<and> map_of d ''type'' = Some (JString ''array'')
                \<and> map_of d ''items'' = Some (JObject [(''type'', JString ''string'')])
            | None \<Rightarrow> \<not> useCoT)
    | _ \<Rightarrow> False)"
  by (simp add: buildClassificationFunctions_def COT_RESPONSE_SCHEMA_def
        PLAIN_RESPONSE_SCHEMA_def)

section \<open>The classifier: rejected models and empty responses\<close>

text \<open>
  Claim C4. When the model name starts with neither \<^verbatim>\<open>gpt-3.5-turbo\<close> nor
  \<^verbatim>\<open>gpt-4\<close>, \<^verbatim>\<open>OpenAIClassifier\<close> fails with the unsupported-model error and
  leaves the world as it found it, whatever \<^verbatim>\<open>cachedChatCompletion\<close> is: no
  look-up in the cache and no network call has taken place.
\<close>

theorem OpenAIClassifier_unsupported_model:
  assumes "\<not> prefix ''gpt-3.5-turbo'' (model args)"
    and "\<not> prefix ''gpt-4'' (model args)"
  shows "OpenAIClassifier e args w =
    (Inl (Error (''Unsupported model: '' @ model args
           @ ''. Currently only supports OpenAI chat models.'')), w)"
  using assms by (simp add: OpenAIClassifier_def found_supported_models)

text \<open>The model \<^verbatim>\<open>claude-2\<close>, in a world that counts its network calls.\<close>

theorem OpenAIClassifier_unsupported_model_witness:
  "\<not> prefix ''gpt-3.5-turbo'' ''claude-2'' \<and> \<not> prefix ''gpt-4'' ''claude-2''
   \<and> OpenAIClassifier (sample_env (cachedChatCompletion_spec (sample_provider [])))
        (classifier_args humor_template (humor_runtime\<lparr>r_model := Some ''claude-2''\<rparr>))
        empty_world =
      (Inl (Error ''Unsupported model: claude-2. Currently only supports OpenAI chat models.''),
       empty_world)"
  using OpenAIClassifier_unsupported_model
    [of "classifier_args humor_template (humor_runtime\<lparr>r_model := Some ''claude-2''\<rparr>)"
        "sample_env (cachedChatCompletion_spec (sample_provider []))" empty_world]
  by (simp add: classifier_args_def humor_runtime_def Let_def)

text \<open>
  Claim C8. When the completion that \<^verbatim>\<open>cachedChatCompletion\<close> returns has no
  choices, \<^verbatim>\<open>OpenAIClassifier\<close> fails with the empty-response error and returns no
  score.
\<close>

theorem OpenAIClassifier_empty_response:
  assumes "found_supported (model args) SUPPORTED_MODELS"
    and "chat_request e args = Inr params"
    and "cachedChatCompletion e params \<lparr>o_cache = cache args, o_auth = auth args\<rparr> w = (Inr resp, w')"
    and "choices resp = []"
  shows "OpenAIClassifier e args w = (Inl (Error ''Empty response from OpenAI''), w')"
  using assms by (simp add: OpenAIClassifier_def)

theorem OpenAIClassifier_empty_response_witness:
  "OpenAIClassifier (sample_env (fixed_completion \<lparr>choices = []\<rparr>))
      (classifier_args humor_template humor_runtime) () =
    (Inl (Error ''Empty response from OpenAI''), ())"
proof -
  let ?e = "sample_env (fixed_completion \<lparr>choices = []\<rparr>)"
  let ?a = "classifier_args humor_template humor_runtime"
  obtain p where p: "chat_request ?e ?a = Inr p"
    by (simp add: humor_runtime_def humor_template_def humor_spec_def spec_template_def
          sample_env_def no_auth_def classifier_args_def resolve_useCoT_def chat_request_def
          obj_spread_def Let_def)
  show ?thesis
    by (rule OpenAIClassifier_empty_response [where resp = "\<lparr>choices = []\<rparr>", OF _ p])
       (simp_all add: humor_runtime_def humor_template_def humor_spec_def spec_template_def
          sample_env_def fixed_completion_def classifier_args_def SUPPORTED_MODELS_def Let_def)
qed

section \<open>The cache\<close>



section \<open>Classifiers from templates: defaults and precedence\<close>






end
